theory Spec2Isabelle
  imports Main
begin

section \<open>The TCP transport of casbin-mesh (pkg/transport/tcp/tcp.go)\<close>

text \<open>
  The Go file defines one struct, \<open>Transport\<close>, three constructors and the methods
  \<open>Open\<close>, \<open>Dial\<close>, \<open>Accept\<close>, \<open>Close\<close> and \<open>Addr\<close>. Every method has a pointer receiver,
  so a method is modelled as a function that takes the transport and returns it again,
  next to its Go results. The operating system (listening sockets, the calls that reached
  the network or the file system, the log) is an explicit state \<open>World\<close>; what the outside
  answers (whether a bind is granted, what a key pair file holds, whether a peer answers)
  is a parameter \<open>Env\<close>, so that every theorem holds whatever the outside does.
\<close>

subsection \<open>Values of the Go standard library that the file handles\<close>

datatype err_kind = BindErr | CertErr | DialErr | HandshakeErr | AcceptErr | ClosedErr

text \<open>A Go \<open>error\<close> value; \<open>msg\<close> is what its \<open>Error()\<close> method returns.\<close>

datatype error = Error (kind: err_kind) (msg: string)

text \<open>\<open>time.Duration\<close>: a count of nanoseconds. The file only passes it on.\<close>

type_synonym Duration = int

text \<open>\<open>net.IP\<close>: a byte slice, \<open>[]\<close> for Go's \<open>nil\<close>.\<close>

type_synonym IP = "nat list"

record TCPAddr =
  IP :: IP
  Port :: nat

text \<open>\<open>net.Dialer\<close>, with the two fields the file sets; \<open>None\<close> is a nil \<open>LocalAddr\<close>.\<close>

record Dialer =
  Timeout :: Duration
  LocalAddr :: "TCPAddr option"

text \<open>\<open>tls.Certificate\<close>: the certificate chain and the private key it was loaded with.\<close>

datatype Certificate = Certificate (chain: string) (private_key: string)

datatype ClientAuthType =
  NoClientCert | RequestClientCert | RequireAnyClientCert
  | VerifyClientCertIfGiven | RequireAndVerifyClientCert

text \<open>\<open>tls.Config\<close>, with the fields that the file sets or that a claim is about.\<close>

record tls_Config =
  Certificates :: "Certificate list"
  InsecureSkipVerify :: bool
  ClientAuth :: ClientAuthType

text \<open>The Go zero values \<open>tls.Certificate{}\<close> and \<open>tls.Config{}\<close>.\<close>

definition zero_Certificate :: Certificate where
  "zero_Certificate = Certificate [] []"

definition zero_tls_Config :: tls_Config where
  "zero_tls_Config = \<lparr>Certificates = [], InsecureSkipVerify = False, ClientAuth = NoClientCert\<rparr>"

text \<open>
  A non-nil \<open>net.Listener\<close>: a TCP listener on a socket descriptor, or the listener that
  \<open>tls.NewListener\<close> builds around another one. A nil interface value is \<open>None\<close> of
  \<open>Listener option\<close>.
\<close>

datatype Listener = TCPListener nat | TLSListener Listener tls_Config

text \<open>A \<open>net.Conn\<close>: a TCP stream, or a TLS client or server stream over another one.\<close>

datatype Conn = TCPConn nat | TLSClientConn Conn tls_Config | TLSServerConn Conn tls_Config

subsection \<open>The world outside the process\<close>

text \<open>The calls that leave the process, in the order they are made.\<close>

datatype IOCall =
  SysListen string string
  | ReadKeyPair string string
  | SysConnect Dialer string string
  | ClientHandshake tls_Config string
  | SysAccept nat
  | SysClose nat

record World =
  sockets :: "(nat \<times> string) list"
  next_fd :: nat
  calls :: "IOCall list"
  logged :: "string list"

text \<open>
  What the outside answers: \<open>can_bind\<close> given the sockets already bound, the key pair
  that two files hold, the IP address a string parses to, the stream a connect yields,
  the outcome of a client handshake (\<open>None\<close> is success) and what arrives at a socket.
\<close>

record Env =
  can_bind :: "(nat \<times> string) list \<Rightarrow> string \<Rightarrow> bool"
  load_keypair :: "string \<Rightarrow> string \<Rightarrow> error + Certificate"
  parse_ip :: "string \<Rightarrow> IP"
  tcp_connect :: "Dialer \<Rightarrow> string \<Rightarrow> error + nat"
  client_handshake :: "tls_Config \<Rightarrow> string \<Rightarrow> nat \<Rightarrow> error option"
  incoming :: "nat \<Rightarrow> error + nat"

definition record_call :: "IOCall \<Rightarrow> World \<Rightarrow> World" where
  "record_call c w = w\<lparr>calls := calls w @ [c]\<rparr>"

text \<open>\<open>log.Println\<close>.\<close>

definition log_Println :: "string \<Rightarrow> World \<Rightarrow> World" where
  "log_Println s w = w\<lparr>logged := logged w @ [s]\<rparr>"

text \<open>\<open>net.Listen\<close>: on success a fresh descriptor is bound to the address.\<close>

definition net_Listen :: "Env \<Rightarrow> string \<Rightarrow> string \<Rightarrow> World \<Rightarrow> (error + Listener) \<times> World" where
  "net_Listen env network addr w =
     (let w1 = record_call (SysListen network addr) w in
      if can_bind env (sockets w) addr
      then (Inr (TCPListener (next_fd w)),
            w1\<lparr>sockets := (next_fd w, addr) # sockets w, next_fd := Suc (next_fd w)\<rparr>)
      else (Inl (Error BindErr addr), w1))"

text \<open>\<open>tls.LoadX509KeyPair\<close>: reads both files.\<close>

definition tls_LoadX509KeyPair ::
  "Env \<Rightarrow> string \<Rightarrow> string \<Rightarrow> World \<Rightarrow> (error + Certificate) \<times> World" where
  "tls_LoadX509KeyPair env certFile keyFile w =
     (load_keypair env certFile keyFile, record_call (ReadKeyPair certFile keyFile) w)"

text \<open>\<open>tls.NewListener\<close>: no input or output, it only builds the wrapper.\<close>

definition tls_NewListener :: "Listener \<Rightarrow> tls_Config \<Rightarrow> Listener" where
  "tls_NewListener inner config = TLSListener inner config"

text \<open>The socket under a listener; the TLS listener embeds the one it wraps.\<close>

fun fd_of :: "Listener \<Rightarrow> nat" where
  "fd_of (TCPListener fd) = fd"
| "fd_of (TLSListener inner config) = fd_of inner"

definition is_open :: "World \<Rightarrow> nat \<Rightarrow> bool" where
  "is_open w fd = (fd \<in> set (map fst (sockets w)))"

text \<open>The result of \<open>Accept\<close> on a listener: a TLS listener wraps what the inner one accepts.\<close>

fun accepted :: "Env \<Rightarrow> World \<Rightarrow> Listener \<Rightarrow> error + Conn" where
  "accepted env w (TCPListener fd) =
     (if is_open w fd
      then (case incoming env fd of Inl e \<Rightarrow> Inl e | Inr c \<Rightarrow> Inr (TCPConn c))
      else Inl (Error ClosedErr ''use of closed network connection''))"
| "accepted env w (TLSListener inner config) =
     (case accepted env w inner of Inl e \<Rightarrow> Inl e | Inr c \<Rightarrow> Inr (TLSServerConn c config))"

definition Listener_Accept :: "Env \<Rightarrow> Listener \<Rightarrow> World \<Rightarrow> (error + Conn) \<times> World" where
  "Listener_Accept env l w = (accepted env w l, record_call (SysAccept (fd_of l)) w)"

text \<open>\<open>Close\<close> on a listener: the socket is released; closing it again is an error.\<close>

definition Listener_Close :: "Listener \<Rightarrow> World \<Rightarrow> error option \<times> World" where
  "Listener_Close l w =
     (let w1 = record_call (SysClose (fd_of l)) w in
      if is_open w (fd_of l)
      then (None, w1\<lparr>sockets := filter (\<lambda>s. fst s \<noteq> fd_of l) (sockets w)\<rparr>)
      else (Some (Error ClosedErr ''use of closed network connection''), w1))"

text \<open>\<open>(*net.Dialer).Dial\<close>: a TCP connect.\<close>

definition Dialer_Dial :: "Env \<Rightarrow> Dialer \<Rightarrow> string \<Rightarrow> string \<Rightarrow> World \<Rightarrow> (error + Conn) \<times> World" where
  "Dialer_Dial env dialer network addr w =
     ((case tcp_connect env dialer addr of Inl e \<Rightarrow> Inl e | Inr c \<Rightarrow> Inr (TCPConn c)),
      record_call (SysConnect dialer network addr) w)"

text \<open>\<open>tls.DialWithDialer\<close>: a TCP connect, then the client handshake under the configuration.\<close>

definition tls_DialWithDialer ::
  "Env \<Rightarrow> Dialer \<Rightarrow> string \<Rightarrow> string \<Rightarrow> tls_Config \<Rightarrow> World \<Rightarrow> (error + Conn) \<times> World" where
  "tls_DialWithDialer env dialer network addr config w =
     (let w1 = record_call (SysConnect dialer network addr) w in
      case tcp_connect env dialer addr of
        Inl e \<Rightarrow> (Inl e, w1)
      | Inr c \<Rightarrow>
          (let w2 = record_call (ClientHandshake config addr) w1 in
           case client_handshake env config addr c of
             Some e \<Rightarrow> (Inl e, w2)
           | None \<Rightarrow> (Inr (TLSClientConn (TCPConn c) config), w2)))"

subsection \<open>The address type\<close>

record Addr =
  Hostname :: string

definition Addr_Network :: "Addr \<Rightarrow> string" where
  "Addr_Network addr = ''tcp''"

definition Addr_String :: "Addr \<Rightarrow> string" where
  "Addr_String addr = Hostname addr"

subsection \<open>The transport\<close>

record Transport =
  ln :: "Listener option"
  advAddr :: Addr
  certFile :: string
  certKey :: string
  remoteEncrypted :: bool
  skipVerify :: bool
  srcIP :: string

text \<open>\<open>&Transport{}\<close>: every field has its zero value.\<close>

definition zero_Transport :: Transport where
  "zero_Transport =
     \<lparr>ln = None, advAddr = \<lparr>Hostname = []\<rparr>, certFile = [], certKey = [],
      remoteEncrypted = False, skipVerify = False, srcIP = []\<rparr>"

definition NewTransport :: Transport where
  "NewTransport = zero_Transport"

definition NewTLSTransport :: "string \<Rightarrow> string \<Rightarrow> bool \<Rightarrow> Transport" where
  "NewTLSTransport certFile' keyPath skipVerify' =
     zero_Transport\<lparr>certFile := certFile', certKey := keyPath,
                    remoteEncrypted := True, skipVerify := skipVerify'\<rparr>"

definition NewTransportFromListener ::
  "Listener option \<Rightarrow> bool \<Rightarrow> bool \<Rightarrow> string \<Rightarrow> Transport" where
  "NewTransportFromListener ln' remoteEncrypted' skipVerify' addr =
     zero_Transport\<lparr>ln := ln', remoteEncrypted := remoteEncrypted', skipVerify := skipVerify',
                    advAddr := \<lparr>Hostname = addr\<rparr>\<rparr>"

text \<open>
  \<open>createTLSConfig\<close>: a zero configuration, a slice of one zero certificate, and the loaded
  pair stored at index 0. When loading fails the configuration is dropped.
\<close>

definition createTLSConfig ::
  "Env \<Rightarrow> string \<Rightarrow> string \<Rightarrow> World \<Rightarrow> (error + tls_Config) \<times> World" where
  "createTLSConfig env certFile' keyFile w =
     (let config = zero_tls_Config\<lparr>Certificates := replicate 1 zero_Certificate\<rparr> in
      case tls_LoadX509KeyPair env certFile' keyFile w of
        (Inl err, w1) \<Rightarrow> (Inl err, w1)
      | (Inr cert, w1) \<Rightarrow>
          (Inr (config\<lparr>Certificates := (Certificates config)[0 := cert]\<rparr>), w1))"

text \<open>\<open>Open\<close>: the error (\<open>None\<close> is Go's \<open>nil\<close>), the transport and the world after the call.\<close>

definition Open ::
  "Env \<Rightarrow> Transport \<Rightarrow> string \<Rightarrow> World \<Rightarrow> error option \<times> Transport \<times> World" where
  "Open env t addr w =
     (case net_Listen env ''tcp'' addr w of
        (Inl err, w1) \<Rightarrow> (Some err, t, w1)
      | (Inr l, w1) \<Rightarrow>
          if certFile t \<noteq> []
          then (case createTLSConfig env (certFile t) (certKey t) w1 of
                  (Inl err, w2) \<Rightarrow> (Some err, t, w2)
                | (Inr config, w2) \<Rightarrow> (None, t\<lparr>ln := Some (tls_NewListener l config)\<rparr>, w2))
          else (None, t\<lparr>ln := Some l\<rparr>, w1))"

text \<open>The dialer that \<open>Dial\<close> builds before it connects.\<close>

definition Dial_dialer :: "Env \<Rightarrow> Transport \<Rightarrow> Duration \<Rightarrow> Dialer" where
  "Dial_dialer env t timeout =
     (let dialer = \<lparr>Timeout = timeout, LocalAddr = None\<rparr> in
      if srcIP t \<noteq> []
      then (let netAddr = \<lparr>IP = parse_ip env (srcIP t), Port = 0\<rparr>
            in \<lparr>Timeout = timeout, LocalAddr = Some netAddr\<rparr>)
      else dialer)"

definition Dial ::
  "Env \<Rightarrow> Transport \<Rightarrow> string \<Rightarrow> Duration \<Rightarrow> World \<Rightarrow> (error + Conn) \<times> Transport \<times> World" where
  "Dial env t addr timeout w =
     (let dialer = Dial_dialer env t timeout in
      if remoteEncrypted t
      then (let conf = zero_tls_Config\<lparr>InsecureSkipVerify := skipVerify t\<rparr>;
                w1 = log_Println ''doing a TLS dial'' w
            in case tls_DialWithDialer env dialer ''tcp'' addr conf w1 of
                 (r, w2) \<Rightarrow> (r, t, w2))
      else (case Dialer_Dial env dialer ''tcp'' addr w of (r, w1) \<Rightarrow> (r, t, w1)))"

text \<open>A call either returns or panics (a method call on a nil interface value).\<close>

datatype 'a outcome = Panic | Return 'a

definition Accept ::
  "Env \<Rightarrow> Transport \<Rightarrow> World \<Rightarrow> ((error + Conn) \<times> Transport \<times> World) outcome" where
  "Accept env t w =
     (case ln t of
        None \<Rightarrow> Panic
      | Some l \<Rightarrow>
          (case Listener_Accept env l w of
             (Inl err, w1) \<Rightarrow>
               Return (Inl err, t, log_Println (''error accepting: '' @ '' '' @ msg err) w1)
           | (Inr c, w1) \<Rightarrow> Return (Inr c, t, w1)))"

definition Close :: "Transport \<Rightarrow> World \<Rightarrow> error option \<times> Transport \<times> World" where
  "Close t w =
     (case ln t of
        Some l \<Rightarrow> (case Listener_Close l w of (r, w1) \<Rightarrow> (r, t, w1))
      | None \<Rightarrow> (None, t, w))"

definition Transport_Addr :: "Transport \<Rightarrow> Addr" where
  "Transport_Addr t = advAddr t"

subsection \<open>Transports that a client of the package can hold\<close>

text \<open>
  \<open>after_calls t t'\<close>: the transport \<open>t\<close> has become \<open>t'\<close> by some sequence of method
  calls that returned, whatever the outside answered and whatever state the world was in.
\<close>

inductive after_calls :: "Transport \<Rightarrow> Transport \<Rightarrow> bool" where
  no_call: "after_calls t t"
| call_Open: "after_calls t t1 \<Longrightarrow> Open env t1 addr w = (e, t2, w') \<Longrightarrow> after_calls t t2"
| call_Dial: "after_calls t t1 \<Longrightarrow> Dial env t1 addr timeout w = (r, t2, w') \<Longrightarrow> after_calls t t2"
| call_Accept: "after_calls t t1 \<Longrightarrow> Accept env t1 w = Return (r, t2, w') \<Longrightarrow> after_calls t t2"
| call_Close: "after_calls t t1 \<Longrightarrow> Close t1 w = (e, t2, w') \<Longrightarrow> after_calls t t2"

subsection \<open>Concrete inputs\<close>

text \<open>A process with no listening socket yet; descriptors 0 to 2 are the standard streams.\<close>

definition fresh_world :: World where
  "fresh_world = \<lparr>sockets = [], next_fd = 3, calls = [], logged = []\<rparr>"

text \<open>The same process once descriptor 3 listens on \<open>127.0.0.1:4002\<close>.\<close>

definition listening_world :: World where
  "listening_world =
     \<lparr>sockets = [(3, ''127.0.0.1:4002'')], next_fd = 4, calls = [], logged = []\<rparr>"

text \<open>
  A host on which every bind is granted and no key pair file exists, with no peer to
  connect to and nothing arriving.
\<close>

definition env_no_cert :: Env where
  "env_no_cert =
     \<lparr>can_bind = (\<lambda>bound addr. True),
      load_keypair = (\<lambda>c k. Inl (Error CertErr (''open '' @ c @ '': no such file or directory''))),
      parse_ip = (\<lambda>s. []),
      tcp_connect = (\<lambda>d addr. Inl (Error DialErr ''connection refused'')),
      client_handshake = (\<lambda>conf addr c. None),
      incoming = (\<lambda>fd. Inl (Error AcceptErr ''accept failed''))\<rparr>"

text \<open>
  A host on which every bind is granted, the key pair \<open>node.pem\<close>/\<open>node.key\<close> exists,
  every connect yields stream 7, a handshake succeeds exactly when it skips verification
  (the peer's certificate is self-signed), and stream 9 arrives at every socket.
\<close>

definition env_self_signed :: Env where
  "env_self_signed =
     \<lparr>can_bind = (\<lambda>bound addr. True),
      load_keypair = (\<lambda>c k. if c = ''node.pem'' \<and> k = ''node.key''
                             then Inr (Certificate ''node.pem'' ''node.key'')
                             else Inl (Error CertErr (''open '' @ c @ '': no such file or directory''))),
      parse_ip = (\<lambda>s. []),
      tcp_connect = (\<lambda>d addr. Inr 7),
      client_handshake = (\<lambda>conf addr c. if InsecureSkipVerify conf then None
                             else Some (Error HandshakeErr ''x509: certificate signed by unknown authority'')),
      incoming = (\<lambda>fd. Inr 9)\<rparr>"

section \<open>What the methods leave unchanged\<close>

lemma Open_frame:
  "Open env t addr w = (e, t', w') \<Longrightarrow>
     advAddr t' = advAddr t \<and> certFile t' = certFile t \<and> certKey t' = certKey t \<and>
     remoteEncrypted t' = remoteEncrypted t \<and> skipVerify t' = skipVerify t \<and> srcIP t' = srcIP t"
  by (auto simp: Open_def net_Listen_def createTLSConfig_def tls_LoadX509KeyPair_def Let_def
           split: prod.splits sum.splits if_splits)

lemma Dial_same: "Dial env t addr timeout w = (r, t', w') \<Longrightarrow> t' = t"
  by (auto simp: Dial_def Let_def split: prod.splits if_splits)

lemma Accept_same: "Accept env t w = Return (r, t', w') \<Longrightarrow> t' = t"
  by (auto simp: Accept_def split: option.splits prod.splits sum.splits)

lemma Close_same: "Close t w = (e, t', w') \<Longrightarrow> t' = t"
  by (auto simp: Close_def split: option.splits prod.splits)

text \<open>Only \<open>Open\<close> assigns a field, and the field is \<open>ln\<close>: rule induction on the calls.\<close>

lemma after_calls_frame:
  "after_calls t t' \<Longrightarrow>
     advAddr t' = advAddr t \<and> certFile t' = certFile t \<and> certKey t' = certKey t \<and>
     remoteEncrypted t' = remoteEncrypted t \<and> skipVerify t' = skipVerify t \<and> srcIP t' = srcIP t"
proof (induction rule: after_calls.induct)
  case (no_call t)
  show ?case by simp
next
  case (call_Open t t1 env addr w e t2 w')
  from call_Open.hyps(2) call_Open.IH show ?case by (simp add: Open_frame)
next
  case (call_Dial t t1 env addr timeout w r t2 w')
  from call_Dial.hyps(2) have "t2 = t1" by (rule Dial_same)
  with call_Dial.IH show ?case by simp
next
  case (call_Accept t t1 env w r t2 w')
  from call_Accept.hyps(2) have "t2 = t1" by (rule Accept_same)
  with call_Accept.IH show ?case by simp
next
  case (call_Close t t1 w e t2 w')
  from call_Close.hyps(2) have "t2 = t1" by (rule Close_same)
  with call_Close.IH show ?case by simp
qed

section \<open>Runs on concrete inputs\<close>

text \<open>Evaluations of \<open>Open\<close> and \<open>Accept\<close> on the self-signed host.\<close>

lemma Open_plain_example:
  "Open env_self_signed NewTransport ''127.0.0.1:4002'' fresh_world =
     (None, NewTransport\<lparr>ln := Some (TCPListener 3)\<rparr>,
      \<lparr>sockets = [(3, ''127.0.0.1:4002'')], next_fd = 4,
       calls = [SysListen ''tcp'' ''127.0.0.1:4002''], logged = []\<rparr>)"
  by (simp add: Open_def net_Listen_def record_call_def Let_def
        NewTransport_def zero_Transport_def env_self_signed_def fresh_world_def)

lemma Open_TLS_example:
  "Open env_self_signed (NewTLSTransport ''node.pem'' ''node.key'' s)
        ''127.0.0.1:4002'' fresh_world =
     (None,
      (NewTLSTransport ''node.pem'' ''node.key'' s)
        \<lparr>ln := Some (TLSListener (TCPListener 3)
                 \<lparr>Certificates = [Certificate ''node.pem'' ''node.key''],
                  InsecureSkipVerify = False, ClientAuth = NoClientCert\<rparr>)\<rparr>,
      \<lparr>sockets = [(3, ''127.0.0.1:4002'')], next_fd = 4,
       calls = [SysListen ''tcp'' ''127.0.0.1:4002'', ReadKeyPair ''node.pem'' ''node.key''],
       logged = []\<rparr>)"
  by (simp add: Open_def net_Listen_def createTLSConfig_def tls_LoadX509KeyPair_def
        tls_NewListener_def zero_tls_Config_def zero_Certificate_def record_call_def Let_def
        NewTLSTransport_def zero_Transport_def env_self_signed_def fresh_world_def)

lemma Accept_example:
  "Accept env_self_signed (NewTransport\<lparr>ln := Some (TCPListener 3)\<rparr>) listening_world =
     Return (Inr (TCPConn 9), NewTransport\<lparr>ln := Some (TCPListener 3)\<rparr>,
             listening_world\<lparr>calls := [SysAccept 3]\<rparr>)"
  by (simp add: Accept_def Listener_Accept_def is_open_def record_call_def
        NewTransport_def zero_Transport_def env_self_signed_def listening_world_def)

section \<open>Open\<close>

text \<open>
  When the bind is granted and the key pair does not load, \<open>Open\<close> returns the loader's
  error and leaves the transport as it was, but the socket that \<open>net.Listen\<close> bound
  stays in the world: the return at line 80 drops the listener without closing it.
\<close>

lemma Open_cert_failure:
  assumes "can_bind env (sockets w) addr" and "certFile t \<noteq> []"
    and "load_keypair env (certFile t) (certKey t) = Inl err"
  shows "Open env t addr w =
           (Some err, t,
            w\<lparr>sockets := (next_fd w, addr) # sockets w, next_fd := Suc (next_fd w),
              calls := calls w @ [SysListen ''tcp'' addr, ReadKeyPair (certFile t) (certKey t)]\<rparr>)"
  using assms
  by (simp add: Open_def net_Listen_def createTLSConfig_def tls_LoadX509KeyPair_def
        record_call_def Let_def)

text \<open>
  C1. The claim: with a certificate path that names no loadable key pair, \<open>Open\<close> returns
  a configuration error, leaves the listener field unchanged and leaves no socket bound
  to the bind address. On a host where \<open>missing.pem\<close> does not exist, \<open>Open\<close> of a TLS
  transport at \<open>127.0.0.1:4002\<close> returns the configuration error and the unchanged
  transport, yet descriptor 3 is still bound to \<open>127.0.0.1:4002\<close> after the call and was
  never closed.
\<close>

theorem Open_missing_cert_leaks_socket:
  "Open env_no_cert (NewTLSTransport ''missing.pem'' ''missing.key'' False)
        ''127.0.0.1:4002'' fresh_world =
     (Some (Error CertErr ''open missing.pem: no such file or directory''),
      NewTLSTransport ''missing.pem'' ''missing.key'' False,
      \<lparr>sockets = [(3, ''127.0.0.1:4002'')], next_fd = 4,
       calls = [SysListen ''tcp'' ''127.0.0.1:4002'', ReadKeyPair ''missing.pem'' ''missing.key''],
       logged = []\<rparr>)
   \<and> is_open (snd (snd (Open env_no_cert (NewTLSTransport ''missing.pem'' ''missing.key'' False)
                            ''127.0.0.1:4002'' fresh_world))) 3
   \<and> SysClose 3 \<notin> set (calls (snd (snd (Open env_no_cert
                            (NewTLSTransport ''missing.pem'' ''missing.key'' False)
                            ''127.0.0.1:4002'' fresh_world))))"
  by (simp add: Open_def net_Listen_def createTLSConfig_def tls_LoadX509KeyPair_def
        record_call_def Let_def NewTLSTransport_def zero_Transport_def env_no_cert_def
        fresh_world_def is_open_def)

text \<open>
  C4. When \<open>Open\<close> succeeds on a transport with a certificate path, the key pair was read
  and loaded, and the stored listener is the TLS listener around the raw one whose
  configuration holds that one certificate and asks nothing of the client; with an empty
  certificate path the stored listener is the raw one. In both cases the raw listener's
  socket is bound to the address and no other field of the transport has changed.
\<close>

theorem Open_success_listener:
  assumes "Open env t addr w = (None, t', w')"
  shows "(certFile t \<noteq> [] \<longrightarrow>
            (\<exists>cert. load_keypair env (certFile t) (certKey t) = Inr cert
               \<and> ReadKeyPair (certFile t) (certKey t) \<in> set (calls w')
               \<and> ln t' = Some (TLSListener (TCPListener (next_fd w))
                    \<lparr>Certificates = [cert], InsecureSkipVerify = False, ClientAuth = NoClientCert\<rparr>)))
       \<and> (certFile t = [] \<longrightarrow> ln t' = Some (TCPListener (next_fd w)))
       \<and> (next_fd w, addr) \<in> set (sockets w')
       \<and> t' = t\<lparr>ln := ln t'\<rparr>"
  using assms
  by (auto simp: Open_def net_Listen_def createTLSConfig_def tls_LoadX509KeyPair_def
        tls_NewListener_def zero_tls_Config_def record_call_def Let_def
        split: if_splits sum.splits prod.splits)

theorem Open_success_listener_witness:
  "Open env_self_signed (NewTLSTransport ''node.pem'' ''node.key'' False)
        ''127.0.0.1:4002'' fresh_world =
     (None,
      (NewTLSTransport ''node.pem'' ''node.key'' False)
        \<lparr>ln := Some (TLSListener (TCPListener 3)
                 \<lparr>Certificates = [Certificate ''node.pem'' ''node.key''],
                  InsecureSkipVerify = False, ClientAuth = NoClientCert\<rparr>)\<rparr>,
      \<lparr>sockets = [(3, ''127.0.0.1:4002'')], next_fd = 4,
       calls = [SysListen ''tcp'' ''127.0.0.1:4002'', ReadKeyPair ''node.pem'' ''node.key''],
       logged = []\<rparr>)
   \<and> load_keypair env_self_signed ''node.pem'' ''node.key'' =
       Inr (Certificate ''node.pem'' ''node.key'')
   \<and> Open env_self_signed NewTransport ''127.0.0.1:4002'' fresh_world =
     (None, NewTransport\<lparr>ln := Some (TCPListener 3)\<rparr>,
      \<lparr>sockets = [(3, ''127.0.0.1:4002'')], next_fd = 4,
       calls = [SysListen ''tcp'' ''127.0.0.1:4002''], logged = []\<rparr>)
   \<and> certFile NewTransport = []"
proof -
  note tls = Open_TLS_example [of False]
  note plain = Open_plain_example
  from Open_success_listener [OF tls] Open_success_listener [OF plain] tls plain
  show ?thesis
    by (simp add: env_self_signed_def NewTransport_def zero_Transport_def)
qed

section \<open>Accept\<close>

text \<open>
  C2. The claim: on a transport with no listener, \<open>Accept\<close> returns an error and does not
  crash. A transport from the plain constructor has a nil listener, and \<open>Accept\<close> calls
  the \<open>Accept\<close> method of that nil interface value: the call panics, whatever the outside
  does and whatever the state of the world; nothing is returned.
\<close>

theorem Accept_without_listener_panics:
  "Accept env NewTransport w = Panic"
  by (simp add: Accept_def NewTransport_def zero_Transport_def)

section \<open>Dial\<close>

lemma Dial_dialer_no_srcIP:
  "srcIP t = [] \<Longrightarrow> Dial_dialer env t timeout = \<lparr>Timeout = timeout, LocalAddr = None\<rparr>"
  by (simp add: Dial_dialer_def)

text \<open>Inside the package, a transport with a source IP dials from that IP and port 0.\<close>

lemma Dial_dialer_srcIP:
  "srcIP t \<noteq> [] \<Longrightarrow>
     Dial_dialer env t timeout =
       \<lparr>Timeout = timeout, LocalAddr = Some \<lparr>IP = parse_ip env (srcIP t), Port = 0\<rparr>\<rparr>"
  by (simp add: Dial_dialer_def)

lemma Dial_calls:
  "calls (snd (snd (Dial env t addr timeout w))) =
     calls w @ [SysConnect (Dial_dialer env t timeout) ''tcp'' addr]
   \<or> calls (snd (snd (Dial env t addr timeout w))) =
     calls w @ [SysConnect (Dial_dialer env t timeout) ''tcp'' addr,
                ClientHandshake (zero_tls_Config\<lparr>InsecureSkipVerify := skipVerify t\<rparr>) addr]"
  by (simp add: Dial_def Let_def tls_DialWithDialer_def Dialer_Dial_def record_call_def
        log_Println_def split: sum.splits option.splits)

lemma Dial_encrypted_conn:
  "remoteEncrypted t \<Longrightarrow> fst (Dial env t addr timeout w) = Inr conn \<Longrightarrow>
     \<exists>c. conn = TLSClientConn (TCPConn c) (zero_tls_Config\<lparr>InsecureSkipVerify := skipVerify t\<rparr>)"
  by (auto simp: Dial_def Let_def tls_DialWithDialer_def split: sum.splits option.splits)

text \<open>
  C3. With \<open>remoteEncrypted\<close> set, \<open>Dial\<close> connects and then runs one TLS client handshake
  under a configuration whose only non-zero field is \<open>InsecureSkipVerify\<close>, equal to the
  transport's \<open>skipVerify\<close>; the result is the handshake's error or the TLS stream (when
  the connect itself fails there is nothing to shake hands with and its error is
  returned). With \<open>remoteEncrypted\<close> clear, \<open>Dial\<close> only connects: no handshake is made and
  the result is the raw TCP stream or the connect error.
\<close>

theorem Dial_encryption_follows_flags:
  fixes env t addr timeout w
  defines "d \<equiv> Dial_dialer env t timeout"
    and "conf \<equiv> \<lparr>Certificates = [], InsecureSkipVerify = skipVerify t, ClientAuth = NoClientCert\<rparr>"
    and "res \<equiv> Dial env t addr timeout w"
  shows "(remoteEncrypted t \<longrightarrow> (\<forall>c. tcp_connect env d addr = Inr c \<longrightarrow>
            calls (snd (snd res)) = calls w @ [SysConnect d ''tcp'' addr, ClientHandshake conf addr]
            \<and> fst res = (case client_handshake env conf addr c of
                           Some e \<Rightarrow> Inl e
                         | None \<Rightarrow> Inr (TLSClientConn (TCPConn c) conf))))
       \<and> (remoteEncrypted t \<longrightarrow> (\<forall>e. tcp_connect env d addr = Inl e \<longrightarrow>
            calls (snd (snd res)) = calls w @ [SysConnect d ''tcp'' addr] \<and> fst res = Inl e))
       \<and> (\<not> remoteEncrypted t \<longrightarrow>
            calls (snd (snd res)) = calls w @ [SysConnect d ''tcp'' addr]
            \<and> fst res = (case tcp_connect env d addr of Inl e \<Rightarrow> Inl e | Inr c \<Rightarrow> Inr (TCPConn c)))"
  unfolding d_def conf_def res_def
  by (simp add: Dial_def Let_def tls_DialWithDialer_def Dialer_Dial_def record_call_def
        log_Println_def zero_tls_Config_def split: sum.splits option.splits)

theorem Dial_encryption_follows_flags_witness:
  "remoteEncrypted (NewTLSTransport ''node.pem'' ''node.key'' True)
   \<and> tcp_connect env_self_signed
        (Dial_dialer env_self_signed (NewTLSTransport ''node.pem'' ''node.key'' True) 5)
        ''10.0.0.2:4002'' = Inr 7
   \<and> calls (snd (snd (Dial env_self_signed (NewTLSTransport ''node.pem'' ''node.key'' True)
                         ''10.0.0.2:4002'' 5 fresh_world))) =
       [SysConnect \<lparr>Timeout = 5, LocalAddr = None\<rparr> ''tcp'' ''10.0.0.2:4002'',
        ClientHandshake \<lparr>Certificates = [], InsecureSkipVerify = True, ClientAuth = NoClientCert\<rparr>
          ''10.0.0.2:4002'']
   \<and> fst (Dial env_self_signed (NewTLSTransport ''node.pem'' ''node.key'' True)
             ''10.0.0.2:4002'' 5 fresh_world) =
       Inr (TLSClientConn (TCPConn 7)
              \<lparr>Certificates = [], InsecureSkipVerify = True, ClientAuth = NoClientCert\<rparr>)
   \<and> fst (Dial env_self_signed (NewTLSTransport ''node.pem'' ''node.key'' False)
             ''10.0.0.2:4002'' 5 fresh_world) =
       Inl (Error HandshakeErr ''x509: certificate signed by unknown authority'')
   \<and> tcp_connect env_no_cert
        (Dial_dialer env_no_cert (NewTLSTransport ''node.pem'' ''node.key'' True) 5)
        ''10.0.0.2:4002'' = Inl (Error DialErr ''connection refused'')
   \<and> calls (snd (snd (Dial env_no_cert (NewTLSTransport ''node.pem'' ''node.key'' True)
                         ''10.0.0.2:4002'' 5 fresh_world))) =
       [SysConnect \<lparr>Timeout = 5, LocalAddr = None\<rparr> ''tcp'' ''10.0.0.2:4002'']
   \<and> fst (Dial env_no_cert (NewTLSTransport ''node.pem'' ''node.key'' True)
             ''10.0.0.2:4002'' 5 fresh_world) = Inl (Error DialErr ''connection refused'')
   \<and> \<not> remoteEncrypted NewTransport
   \<and> calls (snd (snd (Dial env_self_signed NewTransport ''10.0.0.2:4002'' 5 fresh_world))) =
       [SysConnect \<lparr>Timeout = 5, LocalAddr = None\<rparr> ''tcp'' ''10.0.0.2:4002'']
   \<and> fst (Dial env_self_signed NewTransport ''10.0.0.2:4002'' 5 fresh_world) = Inr (TCPConn 7)"
  using
    Dial_encryption_follows_flags [where env = env_self_signed
      and t = "NewTLSTransport ''node.pem'' ''node.key'' True"
      and addr = "''10.0.0.2:4002''" and timeout = 5 and w = fresh_world]
    Dial_encryption_follows_flags [where env = env_self_signed
      and t = "NewTLSTransport ''node.pem'' ''node.key'' False"
      and addr = "''10.0.0.2:4002''" and timeout = 5 and w = fresh_world]
    Dial_encryption_follows_flags [where env = env_no_cert
      and t = "NewTLSTransport ''node.pem'' ''node.key'' True"
      and addr = "''10.0.0.2:4002''" and timeout = 5 and w = fresh_world]
    Dial_encryption_follows_flags [where env = env_self_signed
      and t = NewTransport
      and addr = "''10.0.0.2:4002''" and timeout = 5 and w = fresh_world]
  by (simp add: NewTransport_def NewTLSTransport_def zero_Transport_def Dial_dialer_def
        env_self_signed_def env_no_cert_def fresh_world_def)

section \<open>Close\<close>

text \<open>
  C5. Without a listener, \<open>Close\<close> returns no error and leaves the transport and the
  world as they were. With a listener, \<open>Close\<close> is that listener's \<open>Close\<close>: its result is
  returned, the close call is made, and the listener's socket is not open afterwards;
  the transport itself is unchanged.
\<close>

theorem Close_listener_or_nothing:
  "(ln t = None \<longrightarrow> Close t w = (None, t, w))
   \<and> (\<forall>l. ln t = Some l \<longrightarrow>
        fst (snd (Close t w)) = t
        \<and> (fst (Close t w), snd (snd (Close t w))) = Listener_Close l w
        \<and> SysClose (fd_of l) \<in> set (calls (snd (snd (Close t w))))
        \<and> \<not> is_open (snd (snd (Close t w))) (fd_of l))"
  by (auto simp: Close_def Listener_Close_def record_call_def is_open_def Let_def
        split: prod.splits)

theorem Close_listener_or_nothing_witness:
  "ln NewTransport = None
   \<and> Close NewTransport fresh_world = (None, NewTransport, fresh_world)
   \<and> ln (NewTransportFromListener (Some (TCPListener 3)) False False ''node1'') =
       Some (TCPListener 3)
   \<and> fst (snd (Close (NewTransportFromListener (Some (TCPListener 3)) False False ''node1'')
                   listening_world)) =
       NewTransportFromListener (Some (TCPListener 3)) False False ''node1''
   \<and> SysClose 3 \<in> set (calls (snd (snd (Close
         (NewTransportFromListener (Some (TCPListener 3)) False False ''node1'') listening_world))))
   \<and> \<not> is_open (snd (snd (Close
         (NewTransportFromListener (Some (TCPListener 3)) False False ''node1'') listening_world))) 3"
  using Close_listener_or_nothing [of NewTransport fresh_world]
    Close_listener_or_nothing
      [of "NewTransportFromListener (Some (TCPListener 3)) False False ''node1''" listening_world]
  by (simp add: NewTransport_def NewTransportFromListener_def zero_Transport_def)

section \<open>Constructors\<close>

text \<open>
  C7. Each of the three constructors is a total function of its arguments alone (it
  neither reads nor changes the world and has no error result), and the transport it
  returns holds the arguments in the corresponding fields and the zero value elsewhere;
  the TLS constructor also sets \<open>remoteEncrypted\<close>.
\<close>

theorem constructors_fields:
  "NewTransport =
     \<lparr>ln = None, advAddr = \<lparr>Hostname = []\<rparr>, certFile = [], certKey = [],
      remoteEncrypted = False, skipVerify = False, srcIP = []\<rparr>
   \<and> NewTLSTransport c k s =
     \<lparr>ln = None, advAddr = \<lparr>Hostname = []\<rparr>, certFile = c, certKey = k,
      remoteEncrypted = True, skipVerify = s, srcIP = []\<rparr>
   \<and> NewTransportFromListener l r s a =
     \<lparr>ln = l, advAddr = \<lparr>Hostname = a\<rparr>, certFile = [], certKey = [],
      remoteEncrypted = r, skipVerify = s, srcIP = []\<rparr>"
  by (simp add: NewTransport_def NewTLSTransport_def NewTransportFromListener_def
        zero_Transport_def)

section \<open>Addr\<close>

text \<open>
  C8. \<open>Addr()\<close> returns the advertised address field, reading nothing else; the address
  reports the network \<open>tcp\<close> and renders as its host name, which for a transport from the
  adopting constructor is the string given at construction.
\<close>

theorem Addr_accessor:
  "Transport_Addr t = advAddr t
   \<and> Addr_Network (Transport_Addr t) = ''tcp''
   \<and> Addr_String (Transport_Addr t) = Hostname (advAddr t)
   \<and> Addr_String (Transport_Addr (NewTransportFromListener l r s a)) = a"
  by (simp add: Transport_Addr_def Addr_Network_def Addr_String_def
        NewTransportFromListener_def zero_Transport_def)

text \<open>
  C6. No method changes the advertised address: not \<open>Open\<close>, \<open>Dial\<close>, \<open>Accept\<close> or
  \<open>Close\<close>, and so no sequence of them. A transport from the plain or the TLS constructor
  therefore still reports the empty address after a successful \<open>Open\<close>, and after any
  further calls.
\<close>

theorem advAddr_immutable:
  "(after_calls t t' \<longrightarrow> Transport_Addr t' = Transport_Addr t)
   \<and> advAddr (fst (snd (Open env t addr w))) = advAddr t
   \<and> advAddr (fst (snd (Dial env t addr timeout w))) = advAddr t
   \<and> (\<forall>r t1 w1. Accept env t w = Return (r, t1, w1) \<longrightarrow> advAddr t1 = advAddr t)
   \<and> advAddr (fst (snd (Close t w))) = advAddr t
   \<and> (\<forall>t1 w1. Open env NewTransport addr w = (None, t1, w1) \<longrightarrow>
        Transport_Addr t1 = \<lparr>Hostname = []\<rparr>)
   \<and> (\<forall>t1 w1. Open env (NewTLSTransport c k s) addr w = (None, t1, w1) \<longrightarrow>
        Transport_Addr t1 = \<lparr>Hostname = []\<rparr>)
   \<and> (after_calls NewTransport t' \<or> after_calls (NewTLSTransport c k s) t' \<longrightarrow>
        Transport_Addr t' = \<lparr>Hostname = []\<rparr>)"
proof (intro conjI allI impI)
  assume "after_calls t t'"
  then show "Transport_Addr t' = Transport_Addr t"
    by (simp add: after_calls_frame Transport_Addr_def)
next
  show "advAddr (fst (snd (Open env t addr w))) = advAddr t"
    using Open_frame [of env t addr w] by (cases "Open env t addr w") simp
next
  show "advAddr (fst (snd (Dial env t addr timeout w))) = advAddr t"
    using Dial_same [of env t addr timeout w] by (cases "Dial env t addr timeout w") simp
next
  fix r t1 w1 assume "Accept env t w = Return (r, t1, w1)"
  then have "t1 = t" by (rule Accept_same)
  then show "advAddr t1 = advAddr t" by simp
next
  show "advAddr (fst (snd (Close t w))) = advAddr t"
    using Close_same [of t w] by (cases "Close t w") simp
next
  fix t1 w1 assume "Open env NewTransport addr w = (None, t1, w1)"
  then have "advAddr t1 = advAddr NewTransport" by (simp add: Open_frame)
  then show "Transport_Addr t1 = \<lparr>Hostname = []\<rparr>"
    by (simp add: Transport_Addr_def NewTransport_def zero_Transport_def)
next
  fix t1 w1 assume "Open env (NewTLSTransport c k s) addr w = (None, t1, w1)"
  then have "advAddr t1 = advAddr (NewTLSTransport c k s)" by (simp add: Open_frame)
  then show "Transport_Addr t1 = \<lparr>Hostname = []\<rparr>"
    by (simp add: Transport_Addr_def NewTLSTransport_def zero_Transport_def)
next
  assume "after_calls NewTransport t' \<or> after_calls (NewTLSTransport c k s) t'"
  then have "advAddr t' = advAddr NewTransport \<or> advAddr t' = advAddr (NewTLSTransport c k s)"
    by (auto simp: after_calls_frame)
  then show "Transport_Addr t' = \<lparr>Hostname = []\<rparr>"
    by (auto simp: Transport_Addr_def NewTransport_def NewTLSTransport_def zero_Transport_def)
qed

theorem advAddr_immutable_witness:
  "after_calls NewTransport (NewTransport\<lparr>ln := Some (TCPListener 3)\<rparr>)
   \<and> Transport_Addr (NewTransport\<lparr>ln := Some (TCPListener 3)\<rparr>) = Transport_Addr NewTransport
   \<and> Transport_Addr (NewTransport\<lparr>ln := Some (TCPListener 3)\<rparr>) = \<lparr>Hostname = []\<rparr>
   \<and> fst (Open env_self_signed (NewTLSTransport ''node.pem'' ''node.key'' False)
             ''127.0.0.1:4002'' fresh_world) = None
   \<and> Transport_Addr (fst (snd (Open env_self_signed (NewTLSTransport ''node.pem'' ''node.key'' False)
             ''127.0.0.1:4002'' fresh_world))) = \<lparr>Hostname = []\<rparr>
   \<and> Accept env_self_signed (NewTransport\<lparr>ln := Some (TCPListener 3)\<rparr>) listening_world =
       Return (Inr (TCPConn 9), NewTransport\<lparr>ln := Some (TCPListener 3)\<rparr>,
               listening_world\<lparr>calls := [SysAccept 3]\<rparr>)
   \<and> advAddr (NewTransport\<lparr>ln := Some (TCPListener 3)\<rparr>) = advAddr NewTransport"
proof -
  let ?opened = "NewTransport\<lparr>ln := Some (TCPListener 3)\<rparr>"
  have step: "after_calls NewTransport ?opened"
    by (rule call_Open [OF no_call Open_plain_example])
  note all = advAddr_immutable
         [where t = NewTransport and t' = ?opened
            and env = env_self_signed and addr = "''127.0.0.1:4002''" and w = fresh_world
            and c = "''node.pem''" and k = "''node.key''" and s = False]
  from all step have same: "Transport_Addr ?opened = Transport_Addr NewTransport"
    by blast
  from all step have empty: "Transport_Addr ?opened = \<lparr>Hostname = []\<rparr>"
    by blast
  from all Open_TLS_example [of False]
  have tls: "Transport_Addr (fst (snd (Open env_self_signed
               (NewTLSTransport ''node.pem'' ''node.key'' False)
               ''127.0.0.1:4002'' fresh_world))) = \<lparr>Hostname = []\<rparr>"
    by (metis fst_conv snd_conv)
  have ok: "fst (Open env_self_signed (NewTLSTransport ''node.pem'' ''node.key'' False)
             ''127.0.0.1:4002'' fresh_world) = None"
    by (simp add: Open_TLS_example)
  have adv: "advAddr ?opened = advAddr NewTransport"
    by simp
  from step same empty ok tls Accept_example adv show ?thesis
    by (intro conjI)
qed

section \<open>What the public constructors cannot configure\<close>

text \<open>
  C9. A transport built by any of the three constructors has an empty source IP, and so
  has it after any method calls. Its \<open>Dial\<close> never takes the branch that pins the local
  address: the dialer has no local address, and the connect that \<open>Dial\<close> issues (its
  first call, followed at most by the handshake) carries that dialer.
\<close>

theorem constructed_never_pins_source:
  assumes "t0 = NewTransport \<or> t0 = NewTLSTransport c k s
           \<or> t0 = NewTransportFromListener l r s' a"
    and "after_calls t0 t"
  shows "srcIP t = []
       \<and> Dial_dialer env t timeout = \<lparr>Timeout = timeout, LocalAddr = None\<rparr>
       \<and> (calls (snd (snd (Dial env t addr timeout w))) =
            calls w @ [SysConnect \<lparr>Timeout = timeout, LocalAddr = None\<rparr> ''tcp'' addr]
          \<or> calls (snd (snd (Dial env t addr timeout w))) =
            calls w @ [SysConnect \<lparr>Timeout = timeout, LocalAddr = None\<rparr> ''tcp'' addr,
                       ClientHandshake \<lparr>Certificates = [], InsecureSkipVerify = skipVerify t,
                                        ClientAuth = NoClientCert\<rparr> addr])"
proof -
  from assms(1) have "srcIP t0 = []"
    by (auto simp: NewTransport_def NewTLSTransport_def NewTransportFromListener_def
          zero_Transport_def)
  with assms(2) have empty: "srcIP t = []" by (simp add: after_calls_frame)
  then have d: "Dial_dialer env t timeout = \<lparr>Timeout = timeout, LocalAddr = None\<rparr>"
    by (rule Dial_dialer_no_srcIP)
  from Dial_calls [of env t addr timeout w] empty d show ?thesis
    by (simp add: zero_tls_Config_def)
qed

theorem constructed_never_pins_source_witness:
  "after_calls (NewTLSTransport ''node.pem'' ''node.key'' True)
     ((NewTLSTransport ''node.pem'' ''node.key'' True)
        \<lparr>ln := Some (TLSListener (TCPListener 3)
                 \<lparr>Certificates = [Certificate ''node.pem'' ''node.key''],
                  InsecureSkipVerify = False, ClientAuth = NoClientCert\<rparr>)\<rparr>)
   \<and> srcIP ((NewTLSTransport ''node.pem'' ''node.key'' True)
        \<lparr>ln := Some (TLSListener (TCPListener 3)
                 \<lparr>Certificates = [Certificate ''node.pem'' ''node.key''],
                  InsecureSkipVerify = False, ClientAuth = NoClientCert\<rparr>)\<rparr>) = []
   \<and> Dial_dialer env_self_signed ((NewTLSTransport ''node.pem'' ''node.key'' True)
        \<lparr>ln := Some (TLSListener (TCPListener 3)
                 \<lparr>Certificates = [Certificate ''node.pem'' ''node.key''],
                  InsecureSkipVerify = False, ClientAuth = NoClientCert\<rparr>)\<rparr>) 5 =
       \<lparr>Timeout = 5, LocalAddr = None\<rparr>"
proof -
  have step: "after_calls (NewTLSTransport ''node.pem'' ''node.key'' True)
     ((NewTLSTransport ''node.pem'' ''node.key'' True)
        \<lparr>ln := Some (TLSListener (TCPListener 3)
                 \<lparr>Certificates = [Certificate ''node.pem'' ''node.key''],
                  InsecureSkipVerify = False, ClientAuth = NoClientCert\<rparr>)\<rparr>)"
    by (rule call_Open [OF no_call Open_TLS_example])
  have ctor: "NewTLSTransport ''node.pem'' ''node.key'' True = NewTransport
              \<or> NewTLSTransport ''node.pem'' ''node.key'' True =
                  NewTLSTransport ''node.pem'' ''node.key'' True
              \<or> NewTLSTransport ''node.pem'' ''node.key'' True =
                  NewTransportFromListener None False False []"
    by simp
  from constructed_never_pins_source [OF ctor step, of env_self_signed 5] step
  show ?thesis by simp
qed

text \<open>The two ways \<open>Dial\<close> can go, with the calls it makes and its result.\<close>

lemma Dial_encrypted_trace:
  assumes "remoteEncrypted t"
  shows "(\<forall>n. tcp_connect env (Dial_dialer env t timeout) addr = Inr n \<longrightarrow>
            calls (snd (snd (Dial env t addr timeout w))) =
              calls w @ [SysConnect (Dial_dialer env t timeout) ''tcp'' addr,
                         ClientHandshake (zero_tls_Config\<lparr>InsecureSkipVerify := skipVerify t\<rparr>) addr]
            \<and> fst (Dial env t addr timeout w) =
                (case client_handshake env (zero_tls_Config\<lparr>InsecureSkipVerify := skipVerify t\<rparr>)
                        addr n of
                   Some e \<Rightarrow> Inl e
                 | None \<Rightarrow> Inr (TLSClientConn (TCPConn n)
                                 (zero_tls_Config\<lparr>InsecureSkipVerify := skipVerify t\<rparr>))))
       \<and> (\<forall>e. tcp_connect env (Dial_dialer env t timeout) addr = Inl e \<longrightarrow>
            calls (snd (snd (Dial env t addr timeout w))) =
              calls w @ [SysConnect (Dial_dialer env t timeout) ''tcp'' addr]
            \<and> fst (Dial env t addr timeout w) = Inl e)"
  using assms
  by (simp add: Dial_def Let_def tls_DialWithDialer_def record_call_def log_Println_def
        split: sum.splits option.splits)

lemma TLS_constructor_fields:
  "after_calls (NewTLSTransport c k s) t \<Longrightarrow>
     remoteEncrypted t \<and> certFile t = c \<and> skipVerify t = s \<and> srcIP t = []"
  by (simp add: after_calls_frame NewTLSTransport_def zero_Transport_def)

lemma plain_constructor_fields:
  "after_calls NewTransport t \<Longrightarrow> \<not> remoteEncrypted t \<and> certFile t = [] \<and> srcIP t = []"
  by (simp add: after_calls_frame NewTransport_def zero_Transport_def)

lemma adopting_constructor_fields:
  "after_calls (NewTransportFromListener l r s a) t \<Longrightarrow>
     remoteEncrypted t = r \<and> certFile t = [] \<and> skipVerify t = s \<and> srcIP t = []"
  by (simp add: after_calls_frame NewTransportFromListener_def zero_Transport_def)

lemma Dial_plain_trace:
  assumes "\<not> remoteEncrypted t"
  shows "calls (snd (snd (Dial env t addr timeout w))) =
           calls w @ [SysConnect (Dial_dialer env t timeout) ''tcp'' addr]
       \<and> fst (Dial env t addr timeout w) =
           (case tcp_connect env (Dial_dialer env t timeout) addr of
              Inl e \<Rightarrow> Inl e | Inr n \<Rightarrow> Inr (TCPConn n))"
  using assms
  by (simp add: Dial_def Let_def Dialer_Dial_def record_call_def split: sum.splits)

text \<open>
  C10. The TLS constructor sets \<open>remoteEncrypted\<close> whatever its arguments, and no method
  clears it. Every dial of such a transport, after any calls, connects and, once the
  connect has succeeded, performs the TLS client handshake under the constructor's
  skip-verify flag: the handshake is the call that follows the connect and its outcome is
  the dial's result, a TLS client stream or the handshake's error (when the connect fails
  its error is returned). A transport from the plain constructor has no certificate path
  and dials with the connect alone, so a transport from the plain or the TLS constructor
  whose listener is TLS-configured always dials with TLS. The adopting constructor alone
  takes the listener and the flag separately.
\<close>

theorem TLS_constructor_dials_TLS:
  "remoteEncrypted (NewTLSTransport c k s)
   \<and> (after_calls (NewTLSTransport c k s) t \<longrightarrow>
        remoteEncrypted t \<and> certFile t = c \<and> skipVerify t = s
        \<and> (\<forall>n. tcp_connect env \<lparr>Timeout = timeout, LocalAddr = None\<rparr> addr = Inr n \<longrightarrow>
              calls (snd (snd (Dial env t addr timeout w))) =
                calls w @ [SysConnect \<lparr>Timeout = timeout, LocalAddr = None\<rparr> ''tcp'' addr,
                           ClientHandshake \<lparr>Certificates = [], InsecureSkipVerify = s,
                                            ClientAuth = NoClientCert\<rparr> addr]
              \<and> fst (Dial env t addr timeout w) =
                  (case client_handshake env \<lparr>Certificates = [], InsecureSkipVerify = s,
                                             ClientAuth = NoClientCert\<rparr> addr n of
                     Some e \<Rightarrow> Inl e
                   | None \<Rightarrow> Inr (TLSClientConn (TCPConn n)
                                   \<lparr>Certificates = [], InsecureSkipVerify = s,
                                    ClientAuth = NoClientCert\<rparr>)))
        \<and> (\<forall>e. tcp_connect env \<lparr>Timeout = timeout, LocalAddr = None\<rparr> addr = Inl e \<longrightarrow>
              calls (snd (snd (Dial env t addr timeout w))) =
                calls w @ [SysConnect \<lparr>Timeout = timeout, LocalAddr = None\<rparr> ''tcp'' addr]
              \<and> fst (Dial env t addr timeout w) = Inl e)
        \<and> (\<forall>conn. fst (Dial env t addr timeout w) = Inr conn \<longrightarrow>
              (\<exists>n. conn = TLSClientConn (TCPConn n)
                     \<lparr>Certificates = [], InsecureSkipVerify = s, ClientAuth = NoClientCert\<rparr>)))
   \<and> (after_calls NewTransport tp \<longrightarrow>
        \<not> remoteEncrypted tp \<and> certFile tp = []
        \<and> calls (snd (snd (Dial env tp addr timeout w))) =
            calls w @ [SysConnect \<lparr>Timeout = timeout, LocalAddr = None\<rparr> ''tcp'' addr]
        \<and> fst (Dial env tp addr timeout w) =
            (case tcp_connect env \<lparr>Timeout = timeout, LocalAddr = None\<rparr> addr of
               Inl e \<Rightarrow> Inl e | Inr n \<Rightarrow> Inr (TCPConn n)))
   \<and> ((t0 = NewTransport \<or> t0 = NewTLSTransport c k s) \<and> after_calls t0 t' \<and> certFile t' \<noteq> []
        \<longrightarrow> remoteEncrypted t')
   \<and> (after_calls (NewTransportFromListener l r s' a) ta \<longrightarrow>
        remoteEncrypted ta = r \<and> certFile ta = [])
   \<and> ln (NewTransportFromListener l r s' a) = l
   \<and> remoteEncrypted (NewTransportFromListener l r s' a) = r"
proof (intro conjI)
  show "remoteEncrypted (NewTLSTransport c k s)"
    by (simp add: NewTLSTransport_def zero_Transport_def)
next
  show "after_calls (NewTLSTransport c k s) t \<longrightarrow>
        remoteEncrypted t \<and> certFile t = c \<and> skipVerify t = s
        \<and> (\<forall>n. tcp_connect env \<lparr>Timeout = timeout, LocalAddr = None\<rparr> addr = Inr n \<longrightarrow>
              calls (snd (snd (Dial env t addr timeout w))) =
                calls w @ [SysConnect \<lparr>Timeout = timeout, LocalAddr = None\<rparr> ''tcp'' addr,
                           ClientHandshake \<lparr>Certificates = [], InsecureSkipVerify = s,
                                            ClientAuth = NoClientCert\<rparr> addr]
              \<and> fst (Dial env t addr timeout w) =
                  (case client_handshake env \<lparr>Certificates = [], InsecureSkipVerify = s,
                                             ClientAuth = NoClientCert\<rparr> addr n of
                     Some e \<Rightarrow> Inl e
                   | None \<Rightarrow> Inr (TLSClientConn (TCPConn n)
                                   \<lparr>Certificates = [], InsecureSkipVerify = s,
                                    ClientAuth = NoClientCert\<rparr>)))
        \<and> (\<forall>e. tcp_connect env \<lparr>Timeout = timeout, LocalAddr = None\<rparr> addr = Inl e \<longrightarrow>
              calls (snd (snd (Dial env t addr timeout w))) =
                calls w @ [SysConnect \<lparr>Timeout = timeout, LocalAddr = None\<rparr> ''tcp'' addr]
              \<and> fst (Dial env t addr timeout w) = Inl e)
        \<and> (\<forall>conn. fst (Dial env t addr timeout w) = Inr conn \<longrightarrow>
              (\<exists>n. conn = TLSClientConn (TCPConn n)
                     \<lparr>Certificates = [], InsecureSkipVerify = s, ClientAuth = NoClientCert\<rparr>))"
  proof
    assume a: "after_calls (NewTLSTransport c k s) t"
    from TLS_constructor_fields [OF a]
    have enc: "remoteEncrypted t" and cf: "certFile t = c" and sv: "skipVerify t = s"
      and ip: "srcIP t = []" by simp_all
    from ip have d: "Dial_dialer env t timeout = \<lparr>Timeout = timeout, LocalAddr = None\<rparr>"
      by (rule Dial_dialer_no_srcIP)
    have conf: "zero_tls_Config\<lparr>InsecureSkipVerify := skipVerify t\<rparr> =
                  \<lparr>Certificates = [], InsecureSkipVerify = s, ClientAuth = NoClientCert\<rparr>"
      by (simp add: zero_tls_Config_def sv)
    note trace = Dial_encrypted_trace [OF enc, of env timeout addr w, unfolded d conf]
    have shape: "\<forall>conn. fst (Dial env t addr timeout w) = Inr conn \<longrightarrow>
              (\<exists>n. conn = TLSClientConn (TCPConn n)
                     \<lparr>Certificates = [], InsecureSkipVerify = s, ClientAuth = NoClientCert\<rparr>)"
      using Dial_encrypted_conn [OF enc, of env addr timeout w, unfolded conf] by blast
    note trace1 = trace [THEN conjunct1] and trace2 = trace [THEN conjunct2]
    from enc cf sv trace1 trace2 shape
    show "remoteEncrypted t \<and> certFile t = c \<and> skipVerify t = s
        \<and> (\<forall>n. tcp_connect env \<lparr>Timeout = timeout, LocalAddr = None\<rparr> addr = Inr n \<longrightarrow>
              calls (snd (snd (Dial env t addr timeout w))) =
                calls w @ [SysConnect \<lparr>Timeout = timeout, LocalAddr = None\<rparr> ''tcp'' addr,
                           ClientHandshake \<lparr>Certificates = [], InsecureSkipVerify = s,
                                            ClientAuth = NoClientCert\<rparr> addr]
              \<and> fst (Dial env t addr timeout w) =
                  (case client_handshake env \<lparr>Certificates = [], InsecureSkipVerify = s,
                                             ClientAuth = NoClientCert\<rparr> addr n of
                     Some e \<Rightarrow> Inl e
                   | None \<Rightarrow> Inr (TLSClientConn (TCPConn n)
                                   \<lparr>Certificates = [], InsecureSkipVerify = s,
                                    ClientAuth = NoClientCert\<rparr>)))
        \<and> (\<forall>e. tcp_connect env \<lparr>Timeout = timeout, LocalAddr = None\<rparr> addr = Inl e \<longrightarrow>
              calls (snd (snd (Dial env t addr timeout w))) =
                calls w @ [SysConnect \<lparr>Timeout = timeout, LocalAddr = None\<rparr> ''tcp'' addr]
              \<and> fst (Dial env t addr timeout w) = Inl e)
        \<and> (\<forall>conn. fst (Dial env t addr timeout w) = Inr conn \<longrightarrow>
              (\<exists>n. conn = TLSClientConn (TCPConn n)
                     \<lparr>Certificates = [], InsecureSkipVerify = s, ClientAuth = NoClientCert\<rparr>))"
      by (intro conjI)
  qed
next
  show "after_calls NewTransport tp \<longrightarrow>
        \<not> remoteEncrypted tp \<and> certFile tp = []
        \<and> calls (snd (snd (Dial env tp addr timeout w))) =
            calls w @ [SysConnect \<lparr>Timeout = timeout, LocalAddr = None\<rparr> ''tcp'' addr]
        \<and> fst (Dial env tp addr timeout w) =
            (case tcp_connect env \<lparr>Timeout = timeout, LocalAddr = None\<rparr> addr of
               Inl e \<Rightarrow> Inl e | Inr n \<Rightarrow> Inr (TCPConn n))"
  proof
    assume a: "after_calls NewTransport tp"
    from plain_constructor_fields [OF a]
    have enc: "\<not> remoteEncrypted tp" and cf: "certFile tp = []" and ip: "srcIP tp = []"
      by simp_all
    from ip have d: "Dial_dialer env tp timeout = \<lparr>Timeout = timeout, LocalAddr = None\<rparr>"
      by (rule Dial_dialer_no_srcIP)
    from enc cf Dial_plain_trace [OF enc, of env addr timeout w, unfolded d]
    show "\<not> remoteEncrypted tp \<and> certFile tp = []
        \<and> calls (snd (snd (Dial env tp addr timeout w))) =
            calls w @ [SysConnect \<lparr>Timeout = timeout, LocalAddr = None\<rparr> ''tcp'' addr]
        \<and> fst (Dial env tp addr timeout w) =
            (case tcp_connect env \<lparr>Timeout = timeout, LocalAddr = None\<rparr> addr of
               Inl e \<Rightarrow> Inl e | Inr n \<Rightarrow> Inr (TCPConn n))"
      by blast
  qed
next
  show "(t0 = NewTransport \<or> t0 = NewTLSTransport c k s) \<and> after_calls t0 t' \<and> certFile t' \<noteq> []
        \<longrightarrow> remoteEncrypted t'"
    using plain_constructor_fields [of t'] TLS_constructor_fields [of c k s t'] by blast
next
  show "after_calls (NewTransportFromListener l r s' a) ta \<longrightarrow>
        remoteEncrypted ta = r \<and> certFile ta = []"
    using adopting_constructor_fields [of l r s' a ta] by blast
next
  show "ln (NewTransportFromListener l r s' a) = l"
    by (simp add: NewTransportFromListener_def zero_Transport_def)
next
  show "remoteEncrypted (NewTransportFromListener l r s' a) = r"
    by (simp add: NewTransportFromListener_def zero_Transport_def)
qed

theorem TLS_constructor_dials_TLS_witness:
  "after_calls (NewTLSTransport ''node.pem'' ''node.key'' False)
     ((NewTLSTransport ''node.pem'' ''node.key'' False)
        \<lparr>ln := Some (TLSListener (TCPListener 3)
                 \<lparr>Certificates = [Certificate ''node.pem'' ''node.key''],
                  InsecureSkipVerify = False, ClientAuth = NoClientCert\<rparr>)\<rparr>)
   \<and> tcp_connect env_self_signed \<lparr>Timeout = 5, LocalAddr = None\<rparr> ''10.0.0.2:4002'' = Inr 7
   \<and> calls (snd (snd (Dial env_self_signed
        ((NewTLSTransport ''node.pem'' ''node.key'' False)
           \<lparr>ln := Some (TLSListener (TCPListener 3)
                    \<lparr>Certificates = [Certificate ''node.pem'' ''node.key''],
                     InsecureSkipVerify = False, ClientAuth = NoClientCert\<rparr>)\<rparr>)
        ''10.0.0.2:4002'' 5 listening_world))) =
       [SysConnect \<lparr>Timeout = 5, LocalAddr = None\<rparr> ''tcp'' ''10.0.0.2:4002'',
        ClientHandshake \<lparr>Certificates = [], InsecureSkipVerify = False, ClientAuth = NoClientCert\<rparr>
          ''10.0.0.2:4002'']
   \<and> fst (Dial env_self_signed
        ((NewTLSTransport ''node.pem'' ''node.key'' False)
           \<lparr>ln := Some (TLSListener (TCPListener 3)
                    \<lparr>Certificates = [Certificate ''node.pem'' ''node.key''],
                     InsecureSkipVerify = False, ClientAuth = NoClientCert\<rparr>)\<rparr>)
        ''10.0.0.2:4002'' 5 listening_world) =
       Inl (Error HandshakeErr ''x509: certificate signed by unknown authority'')
   \<and> after_calls (NewTLSTransport ''node.pem'' ''node.key'' True)
     ((NewTLSTransport ''node.pem'' ''node.key'' True)
        \<lparr>ln := Some (TLSListener (TCPListener 3)
                 \<lparr>Certificates = [Certificate ''node.pem'' ''node.key''],
                  InsecureSkipVerify = False, ClientAuth = NoClientCert\<rparr>)\<rparr>)
   \<and> certFile ((NewTLSTransport ''node.pem'' ''node.key'' True)
        \<lparr>ln := Some (TLSListener (TCPListener 3)
                 \<lparr>Certificates = [Certificate ''node.pem'' ''node.key''],
                  InsecureSkipVerify = False, ClientAuth = NoClientCert\<rparr>)\<rparr>) \<noteq> []
   \<and> remoteEncrypted ((NewTLSTransport ''node.pem'' ''node.key'' True)
        \<lparr>ln := Some (TLSListener (TCPListener 3)
                 \<lparr>Certificates = [Certificate ''node.pem'' ''node.key''],
                  InsecureSkipVerify = False, ClientAuth = NoClientCert\<rparr>)\<rparr>)
   \<and> fst (Dial env_self_signed
        ((NewTLSTransport ''node.pem'' ''node.key'' True)
           \<lparr>ln := Some (TLSListener (TCPListener 3)
                    \<lparr>Certificates = [Certificate ''node.pem'' ''node.key''],
                     InsecureSkipVerify = False, ClientAuth = NoClientCert\<rparr>)\<rparr>)
        ''10.0.0.2:4002'' 5 listening_world) =
       Inr (TLSClientConn (TCPConn 7)
              \<lparr>Certificates = [], InsecureSkipVerify = True, ClientAuth = NoClientCert\<rparr>)
   \<and> tcp_connect env_no_cert \<lparr>Timeout = 5, LocalAddr = None\<rparr> ''10.0.0.2:4002'' =
       Inl (Error DialErr ''connection refused'')
   \<and> calls (snd (snd (Dial env_no_cert
        ((NewTLSTransport ''node.pem'' ''node.key'' True)
           \<lparr>ln := Some (TLSListener (TCPListener 3)
                    \<lparr>Certificates = [Certificate ''node.pem'' ''node.key''],
                     InsecureSkipVerify = False, ClientAuth = NoClientCert\<rparr>)\<rparr>)
        ''10.0.0.2:4002'' 5 listening_world))) =
       [SysConnect \<lparr>Timeout = 5, LocalAddr = None\<rparr> ''tcp'' ''10.0.0.2:4002'']
   \<and> after_calls NewTransport (NewTransport\<lparr>ln := Some (TCPListener 3)\<rparr>)
   \<and> \<not> remoteEncrypted (NewTransport\<lparr>ln := Some (TCPListener 3)\<rparr>)
   \<and> fst (Dial env_self_signed (NewTransport\<lparr>ln := Some (TCPListener 3)\<rparr>)
             ''10.0.0.2:4002'' 5 listening_world) = Inr (TCPConn 7)
   \<and> after_calls (NewTransportFromListener (Some (TCPListener 3)) False False ''node1'')
        (NewTransportFromListener (Some (TCPListener 3)) False False ''node1'')
   \<and> \<not> remoteEncrypted (NewTransportFromListener (Some (TCPListener 3)) False False ''node1'')"
proof -
  let ?verifying = "(NewTLSTransport ''node.pem'' ''node.key'' False)
        \<lparr>ln := Some (TLSListener (TCPListener 3)
                 \<lparr>Certificates = [Certificate ''node.pem'' ''node.key''],
                  InsecureSkipVerify = False, ClientAuth = NoClientCert\<rparr>)\<rparr>"
  let ?skipping = "(NewTLSTransport ''node.pem'' ''node.key'' True)
        \<lparr>ln := Some (TLSListener (TCPListener 3)
                 \<lparr>Certificates = [Certificate ''node.pem'' ''node.key''],
                  InsecureSkipVerify = False, ClientAuth = NoClientCert\<rparr>)\<rparr>"
  let ?plain = "NewTransport\<lparr>ln := Some (TCPListener 3)\<rparr>"
  let ?adopted = "NewTransportFromListener (Some (TCPListener 3)) False False ''node1''"
  let ?d = "\<lparr>Timeout = 5, LocalAddr = None\<rparr>"
  have stepV: "after_calls (NewTLSTransport ''node.pem'' ''node.key'' False) ?verifying"
    by (rule call_Open [OF no_call Open_TLS_example])
  have stepS: "after_calls (NewTLSTransport ''node.pem'' ''node.key'' True) ?skipping"
    by (rule call_Open [OF no_call Open_TLS_example])
  have stepP: "after_calls NewTransport ?plain"
    by (rule call_Open [OF no_call Open_plain_example])
  have stepA: "after_calls ?adopted ?adopted"
    by (rule no_call)
  have conn: "tcp_connect env_self_signed ?d ''10.0.0.2:4002'' = Inr 7"
    by (simp add: env_self_signed_def)
  have refused: "tcp_connect env_no_cert ?d ''10.0.0.2:4002'' =
                   Inl (Error DialErr ''connection refused'')"
    by (simp add: env_no_cert_def)
  have hsV: "client_handshake env_self_signed
               \<lparr>Certificates = [], InsecureSkipVerify = False, ClientAuth = NoClientCert\<rparr>
               ''10.0.0.2:4002'' 7 =
             Some (Error HandshakeErr ''x509: certificate signed by unknown authority'')"
    by (simp add: env_self_signed_def)
  have hsS: "client_handshake env_self_signed
               \<lparr>Certificates = [], InsecureSkipVerify = True, ClientAuth = NoClientCert\<rparr>
               ''10.0.0.2:4002'' 7 = None"
    by (simp add: env_self_signed_def)
  have w0: "calls listening_world = []"
    by (simp add: listening_world_def)
  note V = TLS_constructor_dials_TLS
         [where c = "''node.pem''" and k = "''node.key''" and s = False and t = ?verifying
            and env = env_self_signed and addr = "''10.0.0.2:4002''" and timeout = 5
            and w = listening_world and tp = ?plain and ta = ?adopted
            and l = "Some (TCPListener 3)" and r = False and s' = False and a = "''node1''"]
  note S = TLS_constructor_dials_TLS
         [where c = "''node.pem''" and k = "''node.key''" and s = True and t = ?skipping
            and env = env_self_signed and addr = "''10.0.0.2:4002''" and timeout = 5
            and w = listening_world]
  note R = TLS_constructor_dials_TLS
         [where c = "''node.pem''" and k = "''node.key''" and s = True and t = ?skipping
            and env = env_no_cert and addr = "''10.0.0.2:4002''" and timeout = 5
            and w = listening_world]
  note tlsV = V [THEN conjunct2, THEN conjunct1, THEN mp, OF stepV]
  note tlsS = S [THEN conjunct2, THEN conjunct1, THEN mp, OF stepS]
  note tlsR = R [THEN conjunct2, THEN conjunct1, THEN mp, OF stepS]
  note okV = tlsV [THEN conjunct2, THEN conjunct2, THEN conjunct2, THEN conjunct1,
                   rule_format, OF conn]
  note okS = tlsS [THEN conjunct2, THEN conjunct2, THEN conjunct2, THEN conjunct1,
                   rule_format, OF conn]
  note failR = tlsR [THEN conjunct2, THEN conjunct2, THEN conjunct2, THEN conjunct2,
                     THEN conjunct1, rule_format, OF refused]
  note plainV = V [THEN conjunct2, THEN conjunct2, THEN conjunct1, THEN mp, OF stepP]
  note adoptV = V [THEN conjunct2, THEN conjunct2, THEN conjunct2, THEN conjunct2,
                   THEN conjunct1, THEN mp, OF stepA]
  have traceV: "calls (snd (snd (Dial env_self_signed ?verifying ''10.0.0.2:4002'' 5
                                   listening_world))) =
       [SysConnect ?d ''tcp'' ''10.0.0.2:4002'',
        ClientHandshake \<lparr>Certificates = [], InsecureSkipVerify = False, ClientAuth = NoClientCert\<rparr>
          ''10.0.0.2:4002'']"
    using okV [THEN conjunct1] by (simp only: w0 append_Nil)
  have resV: "fst (Dial env_self_signed ?verifying ''10.0.0.2:4002'' 5 listening_world) =
       Inl (Error HandshakeErr ''x509: certificate signed by unknown authority'')"
    using okV [THEN conjunct2] by (simp only: hsV option.case)
  have encS: "remoteEncrypted ?skipping"
    by (rule tlsS [THEN conjunct1])
  have cfS: "certFile ?skipping \<noteq> []"
    by (simp add: NewTLSTransport_def zero_Transport_def)
  have resS: "fst (Dial env_self_signed ?skipping ''10.0.0.2:4002'' 5 listening_world) =
       Inr (TLSClientConn (TCPConn 7)
              \<lparr>Certificates = [], InsecureSkipVerify = True, ClientAuth = NoClientCert\<rparr>)"
    using okS [THEN conjunct2] by (simp only: hsS option.case)
  have traceR: "calls (snd (snd (Dial env_no_cert ?skipping ''10.0.0.2:4002'' 5
                                   listening_world))) =
       [SysConnect ?d ''tcp'' ''10.0.0.2:4002'']"
    using failR [THEN conjunct1] by (simp only: w0 append_Nil)
  have encP: "\<not> remoteEncrypted ?plain"
    by (rule plainV [THEN conjunct1])
  have resP: "fst (Dial env_self_signed ?plain ''10.0.0.2:4002'' 5 listening_world) =
          Inr (TCPConn 7)"
    using plainV [THEN conjunct2, THEN conjunct2, THEN conjunct2]
    by (simp only: conn sum.case)
  have encA: "\<not> remoteEncrypted ?adopted"
    using adoptV [THEN conjunct1] by simp
  from stepV conn traceV resV stepS cfS encS resS refused traceR stepP encP resP stepA encA
  show ?thesis
    by (intro conjI)
qed

end
